theory Spec2Isabelle
  imports Complex_Main
begin

section \<open>Smart City Complaint Portal: the in-memory store and its request handlers\<close>

text \<open>
  The theory embeds the request handlers of \<^verbatim>\<open>app.py\<close>. A Python \<^verbatim>\<open>str\<close> is
  represented by its UTF-8 encoding, a \<^typ>\<open>string\<close>: two Python strings are equal exactly
  when their encodings are, and a Python string is ASCII exactly when every byte of its
  encoding is below 128. A value that may be \<^verbatim>\<open>None\<close> is a \<^typ>\<open>string option\<close>.
  Timestamps (\<^verbatim>\<open>time.time()\<close>) are real numbers; the rounding of floating-point
  subtraction is not represented. Every handler takes the dictionary \<^verbatim>\<open>COMPLAINTS\<close>
  and returns it, updated, next to its response; an exception that leaves a handler is the
  \<open>Inl\<close> branch of the response, and the dictionary is returned as the exception left it.
\<close>

subsection \<open>Data\<close>

text \<open>The dictionary stored under a reference id by \<^verbatim>\<open>index\<close>. The four form fields
  come from \<^verbatim>\<open>request.form.get\<close> and are \<^verbatim>\<open>None\<close> when the field is absent.\<close>

record complaint =
  name :: "string option"
  email :: "string option"
  issue :: "string option"
  location :: "string option"
  token :: string
  created_at :: real
  verified :: bool

type_synonym store = "string \<rightharpoonup> complaint"

type_synonym form = "string \<rightharpoonup> string"

type_synonym environ = "string \<rightharpoonup> string"

text \<open>The module-level constants, computed once at import, and \<^verbatim>\<open>app.debug\<close>.\<close>

record config =
  TOKEN_TTL_SECONDS :: int
  DEV_EMAIL_BACKEND :: string
  ADMIN_EMAILS :: "string list"
  debug :: bool

text \<open>The exceptions that the modelled code can raise.\<close>

datatype error = TypeError | ValueError | UnboundLocalError | OSError

datatype http_method = GET | POST

datatype endpoint = Index | Verify

text \<open>
  One constructor for each \<^verbatim>\<open>flash(...)\<close> call of the source:
  \<^item> \<open>Invalid_reference_id\<close>: "Invalid reference id." (danger), both verification handlers;
  \<^item> \<open>Token_expired\<close>: "Token expired. Please resubmit your complaint." (warning), both;
  \<^item> \<open>Verified rid\<close>: "Reference rid successfully verified. Thank you!" (success), \<^verbatim>\<open>verify\<close>;
  \<^item> \<open>Verified_via_email rid\<close>: "Reference rid successfully verified via email. Thank you!"
    (success), \<^verbatim>\<open>verify_link\<close>;
  \<^item> \<open>Invalid_token_for_reference\<close>: "Invalid token for this reference." (danger), \<^verbatim>\<open>verify\<close>;
  \<^item> \<open>Invalid_token\<close>: "Invalid token." (danger), \<^verbatim>\<open>verify_link\<close>;
  \<^item> \<open>Submitted_sent rid email\<close>: "Complaint submitted. A confirmation email (ref rid) has been
    sent to email." (success), \<^verbatim>\<open>index\<close>;
  \<^item> \<open>Submitted_missing rid missing\<close>: "Complaint submitted (ref rid). Email NOT sent. Missing
    SMTP config: ..." (warning), \<^verbatim>\<open>index\<close>;
  \<^item> \<open>Submitted_not_sent rid\<close>: "Complaint submitted (ref rid). We could not send an email ..."
    (warning), \<^verbatim>\<open>index\<close>.
\<close>

datatype message =
    Invalid_reference_id
  | Token_expired
  | Verified string
  | Verified_via_email string
  | Invalid_token_for_reference
  | Invalid_token
  | Submitted_sent string "string option"
  | Submitted_missing string "string list"
  | Submitted_not_sent string

text \<open>A handler either renders a template or flashes one message and redirects.\<close>

datatype response = Render string | Redirect endpoint message

text \<open>The four outcomes of the verification workflow, and the outcome that a response
  of a verification handler stands for.\<close>

datatype outcome = verified_now | already_invalid_reference | expired | token_mismatch

fun outcome_of_message :: "message \<Rightarrow> outcome option" where
  "outcome_of_message Invalid_reference_id = Some already_invalid_reference"
| "outcome_of_message Token_expired = Some expired"
| "outcome_of_message (Verified rid) = Some verified_now"
| "outcome_of_message (Verified_via_email rid) = Some verified_now"
| "outcome_of_message Invalid_token_for_reference = Some token_mismatch"
| "outcome_of_message Invalid_token = Some token_mismatch"
| "outcome_of_message (Submitted_sent rid e) = None"
| "outcome_of_message (Submitted_missing rid ms) = None"
| "outcome_of_message (Submitted_not_sent rid) = None"

fun outcome_of :: "error + response \<Rightarrow> outcome option" where
  "outcome_of (Inl e) = None"
| "outcome_of (Inr (Render t)) = None"
| "outcome_of (Inr (Redirect ep m)) = outcome_of_message m"

subsection \<open>Token comparison\<close>

definition isascii :: "string \<Rightarrow> bool" where
  "isascii s = list_all (\<lambda>c. (of_char c :: nat) < 128) s"

text \<open>
  \<^verbatim>\<open>secrets.compare_digest(a, b)\<close> with \<^verbatim>\<open>a\<close> a \<^verbatim>\<open>str\<close>: it raises
  \<^verbatim>\<open>TypeError\<close> when \<^verbatim>\<open>b\<close> is \<^verbatim>\<open>None\<close> (the operands are not of one type) and when
  one of the two strings has a non-ASCII character; otherwise it tells whether they are equal.
\<close>

fun compare_digest :: "string \<Rightarrow> string option \<Rightarrow> error + bool" where
  "compare_digest a None = Inl TypeError"
| "compare_digest a (Some b) = (if isascii a \<and> isascii b then Inr (a = b) else Inl TypeError)"

subsection \<open>The two verification handlers\<close>

text \<open>\<^verbatim>\<open>verify\<close>, route \<^verbatim>\<open>/verify\<close> (GET and POST): the reference id and the token are
  form fields. \<^verbatim>\<open>not reference_id\<close> holds for an absent and for an empty field.\<close>

definition verify ::
  "config \<Rightarrow> http_method \<Rightarrow> form \<Rightarrow> real \<Rightarrow> store \<Rightarrow> (error + response) \<times> store" where
  "verify cfg meth frm now COMPLAINTS =
     (if meth = POST then
        (case frm ''reference_id'' of
           None \<Rightarrow> (Inr (Redirect Verify Invalid_reference_id), COMPLAINTS)
         | Some reference_id \<Rightarrow>
             if reference_id = [] then (Inr (Redirect Verify Invalid_reference_id), COMPLAINTS)
             else
               (case COMPLAINTS reference_id of
                  None \<Rightarrow> (Inr (Redirect Verify Invalid_reference_id), COMPLAINTS)
                | Some rec \<Rightarrow>
                    if now - created_at rec > real_of_int (TOKEN_TTL_SECONDS cfg)
                    then (Inr (Redirect Verify Token_expired), COMPLAINTS)
                    else
                      (case compare_digest (token rec) (frm ''token'') of
                         Inl e \<Rightarrow> (Inl e, COMPLAINTS)
                       | Inr True \<Rightarrow>
                           (Inr (Redirect Index (Verified reference_id)),
                            COMPLAINTS(reference_id \<mapsto> rec\<lparr>verified := True\<rparr>))
                       | Inr False \<Rightarrow>
                           (Inr (Redirect Verify Invalid_token_for_reference), COMPLAINTS))))
      else (Inr (Render ''verify.html''), COMPLAINTS))"

text \<open>\<^verbatim>\<open>verify_link\<close>, route \<^verbatim>\<open>/verify/<reference_id>/<token>\<close>: both are path segments,
  so both are strings. \<^verbatim>\<open>not record\<close> holds only when the lookup gave \<^verbatim>\<open>None\<close>, a stored
  dictionary having seven keys.\<close>

definition verify_link ::
  "config \<Rightarrow> string \<Rightarrow> string \<Rightarrow> real \<Rightarrow> store \<Rightarrow> (error + response) \<times> store" where
  "verify_link cfg reference_id tok now COMPLAINTS =
     (case COMPLAINTS reference_id of
        None \<Rightarrow> (Inr (Redirect Index Invalid_reference_id), COMPLAINTS)
      | Some rec \<Rightarrow>
          if now - created_at rec > real_of_int (TOKEN_TTL_SECONDS cfg)
          then (Inr (Redirect Index Token_expired), COMPLAINTS)
          else
            (case compare_digest (token rec) (Some tok) of
               Inl e \<Rightarrow> (Inl e, COMPLAINTS)
             | Inr True \<Rightarrow>
                 (Inr (Redirect Index (Verified_via_email reference_id)),
                  COMPLAINTS(reference_id \<mapsto> rec\<lparr>verified := True\<rparr>))
             | Inr False \<Rightarrow> (Inr (Redirect Index Invalid_token), COMPLAINTS)))"

subsection \<open>The status lookup\<close>

text \<open>\<^verbatim>\<open>status\<close>, route \<^verbatim>\<open>/status/<reference_id>\<close>. It returns either the pair of a body
  and the code 404, or a dictionary, given here with its keys in the order of the source.
  \<^verbatim>\<open>datetime.fromtimestamp(t).isoformat()\<close> depends on the time zone of the host and is the
  parameter \<open>isoformat\<close>.\<close>

datatype json = JString string | JBool bool

datatype status_response = Not_found string nat | Payload "(string \<times> json) list"

definition status :: "(real \<Rightarrow> string) \<Rightarrow> string \<Rightarrow> store \<Rightarrow> status_response" where
  "status isoformat reference_id COMPLAINTS =
     (case COMPLAINTS reference_id of
        None \<Rightarrow> Not_found ''Reference not found'' 404
      | Some rec \<Rightarrow>
          Payload [(''reference_id'', JString reference_id),
                   (''verified'', JBool (verified rec)),
                   (''created_at'', JString (isoformat (created_at rec)))])"

subsection \<open>Reading the SMTP configuration\<close>

text \<open>Truth values of Python: \<^verbatim>\<open>None\<close> and the empty string are false, and \<^verbatim>\<open>a or b\<close>
  is \<^verbatim>\<open>a\<close> when \<^verbatim>\<open>a\<close> is true.\<close>

fun truthy :: "string option \<Rightarrow> bool" where
  "truthy None = False"
| "truthy (Some s) = (s \<noteq> [])"

definition py_or :: "string option \<Rightarrow> string option \<Rightarrow> string option" where
  "py_or a b = (if truthy a then a else b)"

text \<open>
  \<^verbatim>\<open>int(s)\<close> on a string: white space is stripped at both ends, a sign may follow, and the
  rest is a non-empty run of decimal digits in which single underscores may separate digits.
  Anything else raises \<^verbatim>\<open>ValueError\<close>. White space is the space and the characters
  9 to 13 (tab, line feed, vertical tab, form feed, carriage return). Only ASCII digits and
  ASCII white space are recognised here, and the interpreter's limit on the number of digits
  is not represented.
\<close>

definition is_space :: "char \<Rightarrow> bool" where
  "is_space c = ((9 \<le> (of_char c :: nat) \<and> (of_char c :: nat) \<le> 13)
                 \<or> (of_char c :: nat) = 32)"

definition is_digit :: "char \<Rightarrow> bool" where
  "is_digit c = (48 \<le> (of_char c :: nat) \<and> (of_char c :: nat) \<le> 57)"

definition strip :: "string \<Rightarrow> string" where
  "strip s = rev (dropWhile is_space (rev (dropWhile is_space s)))"

fun digits_value :: "string \<Rightarrow> bool \<Rightarrow> int \<Rightarrow> int option" where
  "digits_value [] after_digit acc = (if after_digit then Some acc else None)"
| "digits_value (c # cs) after_digit acc =
     (if is_digit c then digits_value cs True (10 * acc + (int (of_char c) - 48))
      else if c = CHR ''_'' \<and> after_digit then digits_value cs False acc
      else None)"

definition py_int :: "string \<Rightarrow> error + int" where
  "py_int s =
     (case strip s of
        [] \<Rightarrow> Inl ValueError
      | c # cs \<Rightarrow>
          (case (if c = CHR ''-'' then map_option uminus (digits_value cs False 0)
                 else if c = CHR ''+'' then digits_value cs False 0
                 else digits_value (c # cs) False 0) of
             None \<Rightarrow> Inl ValueError
           | Some n \<Rightarrow> Inr n))"

text \<open>The names whose value is false, in the order of the list comprehension.\<close>

definition missing_names :: "(string \<times> bool) list \<Rightarrow> string list" where
  "missing_names xs = map fst (filter (\<lambda>nv. \<not> snd nv) xs)"

text \<open>\<^verbatim>\<open>_get_missing_smtp_config\<close>: here the port is the string of the environment, so that
  \<^verbatim>\<open>"0"\<close> counts as present.\<close>

definition get_missing_smtp_config :: "environ \<Rightarrow> string list" where
  "get_missing_smtp_config env =
     (let smtp_host = env ''SMTP_HOST'';
          smtp_port = env ''SMTP_PORT'';
          smtp_user = env ''SMTP_USERNAME'';
          smtp_pass = env ''SMTP_PASSWORD'';
          sender = py_or (env ''SENDER_EMAIL'') smtp_user
      in missing_names
           [(''SMTP_HOST'', truthy smtp_host),
            (''SMTP_PORT'', truthy smtp_port),
            (''SMTP_USERNAME'', truthy smtp_user),
            (''SMTP_PASSWORD'', truthy smtp_pass),
            (''SENDER_EMAIL'', truthy sender)])"

text \<open>The list \<^verbatim>\<open>missing\<close> of the two notifier functions: the port has been through
  \<^verbatim>\<open>int\<close>, and 0 is false.\<close>

definition missing_smtp :: "environ \<Rightarrow> int \<Rightarrow> string list" where
  "missing_smtp env smtp_port =
     (let smtp_host = env ''SMTP_HOST'';
          smtp_user = env ''SMTP_USERNAME'';
          smtp_pass = env ''SMTP_PASSWORD'';
          sender = py_or (env ''SENDER_EMAIL'') smtp_user
      in missing_names
           [(''SMTP_HOST'', truthy smtp_host),
            (''SMTP_PORT'', smtp_port \<noteq> 0),
            (''SMTP_USERNAME'', truthy smtp_user),
            (''SMTP_PASSWORD'', truthy smtp_pass),
            (''SENDER_EMAIL'', truthy sender)])"

subsection \<open>The notifier\<close>

text \<open>
  What the world outside does during one call of a notifier function: \<open>smtp_fails\<close> says
  that some call of the SMTP dialogue inside the \<^verbatim>\<open>try\<close> block raises an exception (the
  choice between \<^verbatim>\<open>SMTP_SSL\<close> and \<^verbatim>\<open>SMTP\<close> with \<^verbatim>\<open>starttls\<close> only selects the calls
  made there), and \<open>write_fails\<close> that \<^verbatim>\<open>os.makedirs\<close> or \<^verbatim>\<open>open\<close> raises \<^verbatim>\<open>OSError\<close>.
  The mail sent, the files written and the log are not part of the result. \<^verbatim>\<open>url_for\<close>
  and \<^verbatim>\<open>render_template\<close> are taken to return: the templates are files of the
  repository.
\<close>

record transport =
  smtp_fails :: bool
  write_fails :: bool

text \<open>\<^verbatim>\<open>send_verification_email\<close>. The header \<^verbatim>\<open>To\<close> is \<^verbatim>\<open>", ".join(recipients)\<close>,
  outside the \<^verbatim>\<open>try\<close> block, which raises \<^verbatim>\<open>TypeError\<close> when \<^verbatim>\<open>to_email\<close> is
  \<^verbatim>\<open>None\<close>.\<close>

definition send_verification_email ::
  "config \<Rightarrow> environ \<Rightarrow> transport \<Rightarrow> string option \<Rightarrow> string \<Rightarrow> string \<Rightarrow> string list option
     \<Rightarrow> error + bool" where
  "send_verification_email cfg env tr to_email reference_id tok cc =
     (case py_int (case env ''SMTP_PORT'' of None \<Rightarrow> ''0'' | Some p \<Rightarrow> p) of
        Inl e \<Rightarrow> Inl e
      | Inr smtp_port \<Rightarrow>
          if missing_smtp env smtp_port \<noteq> [] then
            (if DEV_EMAIL_BACKEND cfg = ''console'' then Inr True
             else if DEV_EMAIL_BACKEND cfg = ''file'' then
               (if write_fails tr then Inl OSError else Inr True)
             else Inr False)
          else
            (case to_email of
               None \<Rightarrow> Inl TypeError
             | Some addr \<Rightarrow>
                 if smtp_fails tr then
                   (if DEV_EMAIL_BACKEND cfg = ''file'' then
                      (if write_fails tr then Inl OSError else Inr True)
                    else Inr False)
                 else Inr True))"

text \<open>\<^verbatim>\<open>send_admin_notification\<close>. In the branch for a missing configuration the two
  development backends read \<^verbatim>\<open>subject\<close> and \<^verbatim>\<open>body\<close>, local variables that are assigned
  only after that branch: the console backend raises \<^verbatim>\<open>UnboundLocalError\<close> when it builds
  the arguments of the log call, the file backend when it builds the text to write, after
  \<^verbatim>\<open>os.makedirs\<close> and \<^verbatim>\<open>open\<close>.\<close>

definition send_admin_notification ::
  "config \<Rightarrow> environ \<Rightarrow> transport \<Rightarrow> string \<Rightarrow> complaint \<Rightarrow> error + bool" where
  "send_admin_notification cfg env tr reference_id rec =
     (if ADMIN_EMAILS cfg = [] then Inr False
      else
        (case py_int (case env ''SMTP_PORT'' of None \<Rightarrow> ''0'' | Some p \<Rightarrow> p) of
           Inl e \<Rightarrow> Inl e
         | Inr smtp_port \<Rightarrow>
             if missing_smtp env smtp_port \<noteq> [] then
               (if DEV_EMAIL_BACKEND cfg = ''console'' then Inl UnboundLocalError
                else if DEV_EMAIL_BACKEND cfg = ''file'' then
                  (if write_fails tr then Inl OSError else Inl UnboundLocalError)
                else Inr False)
             else (if smtp_fails tr then Inr False else Inr True)))"

subsection \<open>Submitting a complaint\<close>

text \<open>The random values drawn by one submission: \<^verbatim>\<open>uuid.uuid4().hex\<close>, 32 characters
  among 0-9 and a-f, and \<^verbatim>\<open>secrets.randbelow(10**6)\<close>.\<close>

record rnd =
  uuid4_hex :: string
  randbelow :: nat

definition upper_char :: "char \<Rightarrow> char" where
  "upper_char c =
     (if 97 \<le> (of_char c :: nat) \<and> (of_char c :: nat) \<le> 122
      then char_of ((of_char c :: nat) - 32) else c)"

fun str_nat :: "nat \<Rightarrow> string" where
  "str_nat n =
     (if n < 10 then [char_of (48 + n)]
      else str_nat (n div 10) @ [char_of (48 + n mod 10)])"

declare str_nat.simps [simp del]

text \<open>\<^verbatim>\<open>f"{n:06d}"\<close>: the decimal digits, filled with zeros on the left to six characters.\<close>

definition format_06d :: "nat \<Rightarrow> string" where
  "format_06d n = replicate (6 - length (str_nat n)) (CHR ''0'') @ str_nat n"

definition new_reference_id :: "rnd \<Rightarrow> string" where
  "new_reference_id r = ''REF-'' @ map upper_char (take 8 (uuid4_hex r))"

text \<open>\<^verbatim>\<open>index\<close>, route \<^verbatim>\<open>/\<close> (GET and POST). The record is stored before the two notifier
  functions are called, each with the state of the transport at its call; an exception of
  either leaves the handler, the record staying in the dictionary.\<close>

definition index ::
  "config \<Rightarrow> environ \<Rightarrow> transport \<Rightarrow> transport \<Rightarrow> http_method \<Rightarrow> form \<Rightarrow> rnd \<Rightarrow> real \<Rightarrow> store
     \<Rightarrow> (error + response) \<times> store" where
  "index cfg env tr_user tr_admin meth frm r now COMPLAINTS =
     (if meth = POST then
        (let reference_id = new_reference_id r;
             tok = format_06d (randbelow r);
             rec = \<lparr>name = frm ''name'', email = frm ''email'', issue = frm ''issue'',
                    location = frm ''location'', token = tok, created_at = now,
                    verified = False\<rparr>;
             COMPLAINTS' = COMPLAINTS(reference_id \<mapsto> rec)
         in case send_verification_email cfg env tr_user (frm ''email'') reference_id tok None of
              Inl e \<Rightarrow> (Inl e, COMPLAINTS')
            | Inr sent \<Rightarrow>
                (case send_admin_notification cfg env tr_admin reference_id rec of
                   Inl e \<Rightarrow> (Inl e, COMPLAINTS')
                 | Inr admin_notified \<Rightarrow>
                     (Inr (Redirect Index
                        (if sent then Submitted_sent reference_id (frm ''email'')
                         else if get_missing_smtp_config env \<noteq> [] \<and> debug cfg
                           then Submitted_missing reference_id (get_missing_smtp_config env)
                           else Submitted_not_sent reference_id)),
                      COMPLAINTS')))
      else (Inr (Render ''index.html''), COMPLAINTS))"

subsection \<open>Requests in sequence\<close>

datatype request =
    Index_request environ transport transport http_method form rnd real
  | Verify_request http_method form real
  | Verify_link_request string string real
  | Status_request string

text \<open>The dictionary after one request, and after a list of them.\<close>

fun serve :: "config \<Rightarrow> store \<Rightarrow> request \<Rightarrow> store" where
  "serve cfg COMPLAINTS (Index_request env tr_user tr_admin meth frm r now) =
     snd (index cfg env tr_user tr_admin meth frm r now COMPLAINTS)"
| "serve cfg COMPLAINTS (Verify_request meth frm now) = snd (verify cfg meth frm now COMPLAINTS)"
| "serve cfg COMPLAINTS (Verify_link_request reference_id tok now) =
     snd (verify_link cfg reference_id tok now COMPLAINTS)"
| "serve cfg COMPLAINTS (Status_request reference_id) = COMPLAINTS"

definition run :: "config \<Rightarrow> store \<Rightarrow> request list \<Rightarrow> store" where
  "run cfg COMPLAINTS reqs = foldl (serve cfg) COMPLAINTS reqs"

text \<open>The reference id that a request stores a record under, if it stores one.\<close>

fun created_id :: "request \<Rightarrow> string option" where
  "created_id (Index_request env tr_user tr_admin meth frm r now) =
     (if meth = POST then Some (new_reference_id r) else None)"
| "created_id (Verify_request meth frm now) = None"
| "created_id (Verify_link_request reference_id tok now) = None"
| "created_id (Status_request reference_id) = None"

subsection \<open>Notions used in the statements\<close>

text \<open>The exception that left a handler, if one did.\<close>

definition fault_of :: "error + response \<Rightarrow> error option" where
  "fault_of r = (case r of Inl e \<Rightarrow> Some e | Inr resp \<Rightarrow> None)"

text \<open>Two records agree on every field but \<open>verified\<close>.\<close>

definition same_but_verified :: "complaint \<Rightarrow> complaint \<Rightarrow> bool" where
  "same_but_verified a b =
     (name a = name b \<and> email a = email b \<and> issue a = issue b \<and> location a = location b
      \<and> token a = token b \<and> created_at a = created_at b)"


subsection \<open>Sample values\<close>

text \<open>A configuration with the default time to live and nothing else set; the same with
  the console backend and one administrator address.\<close>

definition cfg_day :: config where
  "cfg_day = \<lparr>TOKEN_TTL_SECONDS = 86400, DEV_EMAIL_BACKEND = [], ADMIN_EMAILS = [],
     debug = False\<rparr>"

definition cfg_console :: config where
  "cfg_console = \<lparr>TOKEN_TTL_SECONDS = 86400, DEV_EMAIL_BACKEND = ''console'',
     ADMIN_EMAILS = [''admin@example.com''], debug = False\<rparr>"

definition quiet :: transport where
  "quiet = \<lparr>smtp_fails = False, write_fails = False\<rparr>"

definition form_asha :: form where
  "form_asha = [''name'' \<mapsto> ''Asha'', ''email'' \<mapsto> ''asha@example.com'',
     ''issue'' \<mapsto> ''Street light out'', ''location'' \<mapsto> ''Ward 4'']"

definition rnd_ab12 :: rnd where
  "rnd_ab12 = \<lparr>uuid4_hex = ''ab12cd34ef567890ab12cd34ef567890'', randbelow = 0\<rparr>"

definition rnd_ff00 :: rnd where
  "rnd_ff00 = \<lparr>uuid4_hex = ''ff00aa11ef567890ab12cd34ef567890'', randbelow = 42\<rparr>"

text \<open>The record that \<open>form_asha\<close> and \<open>rnd_ab12\<close> give at time 1000, and the dictionary
  holding it alone.\<close>

definition rec_1000 :: complaint where
  "rec_1000 = \<lparr>name = Some ''Asha'', email = Some ''asha@example.com'',
     issue = Some ''Street light out'', location = Some ''Ward 4'', token = ''000000'',
     created_at = 1000, verified = False\<rparr>"

definition store_1000 :: store where
  "store_1000 = [''REF-AB12CD34'' \<mapsto> rec_1000]"

definition rec_verified :: complaint where
  "rec_verified = rec_1000\<lparr>verified := True\<rparr>"

definition store_verified :: store where
  "store_verified = [''REF-AB12CD34'' \<mapsto> rec_verified]"

text \<open>The form of the manual path with the right token, and the same form without the
  token field.\<close>

definition form_verify :: form where
  "form_verify = [''reference_id'' \<mapsto> ''REF-AB12CD34'', ''token'' \<mapsto> ''000000'']"

definition form_no_token :: form where
  "form_no_token = [''reference_id'' \<mapsto> ''REF-AB12CD34'']"

text \<open>The UTF-8 encoding of the one-character string U+00E9, and a form carrying it as
  token.\<close>

definition e_acute :: string where
  "e_acute = [CHR 0xC3, CHR 0xA9]"

definition form_e_acute :: form where
  "form_e_acute = [''reference_id'' \<mapsto> ''REF-AB12CD34'', ''token'' \<mapsto> e_acute]"

definition fixed_isoformat :: "real \<Rightarrow> string" where
  "fixed_isoformat t = ''1970-01-01T00:16:40''"

section \<open>Properties\<close>

subsection \<open>Evaluation of the sample values\<close>

lemma new_reference_id_ab12: "new_reference_id rnd_ab12 = ''REF-AB12CD34''"
  by code_simp

lemma new_reference_id_ff00: "new_reference_id rnd_ff00 = ''REF-FF00AA11''"
  by code_simp

lemma format_06d_zero: "format_06d 0 = ''000000''"
  by code_simp

lemma py_int_zero: "py_int ''0'' = Inr 0"
  by code_simp

lemma form_asha_simps:
  "form_asha ''name'' = Some ''Asha''" "form_asha ''email'' = Some ''asha@example.com''"
  "form_asha ''issue'' = Some ''Street light out''" "form_asha ''location'' = Some ''Ward 4''"
  by (simp_all add: form_asha_def)

lemma form_verify_simps:
  "form_verify ''reference_id'' = Some ''REF-AB12CD34''" "form_verify ''token'' = Some ''000000''"
  by (simp_all add: form_verify_def)

lemma store_1000_simps:
  "store_1000 ''REF-AB12CD34'' = Some rec_1000" "store_1000 ''REF-FFFFFFFF'' = None"
  by (simp_all add: store_1000_def)

lemma rec_1000_simps:
  "token rec_1000 = ''000000''" "created_at rec_1000 = 1000" "verified rec_1000 = False"
  by (simp_all add: rec_1000_def)

lemma isascii_zeros: "isascii ''000000''"
  by (simp add: isascii_def)

lemma not_isascii_e_acute: "\<not> isascii e_acute"
  by (simp add: isascii_def e_acute_def)

subsection \<open>The verification handlers, case by case\<close>

text \<open>Both handlers test the cases in the order of the source; between the test of the
  time to live and the test of equality stands the exception of the comparison.\<close>

lemma verify_link_cases:
  "verify_link cfg r t now S =
     (case S r of
        None \<Rightarrow> (Inr (Redirect Index Invalid_reference_id), S)
      | Some rec \<Rightarrow>
          if now - created_at rec > real_of_int (TOKEN_TTL_SECONDS cfg)
            then (Inr (Redirect Index Token_expired), S)
          else if \<not> (isascii (token rec) \<and> isascii t) then (Inl TypeError, S)
          else if token rec = t
            then (Inr (Redirect Index (Verified_via_email r)), S(r \<mapsto> rec\<lparr>verified := True\<rparr>))
          else (Inr (Redirect Index Invalid_token), S))"
  by (simp add: verify_link_def split: option.splits)

lemma verify_post_cases:
  "verify cfg POST frm now S =
     (case frm ''reference_id'' of
        None \<Rightarrow> (Inr (Redirect Verify Invalid_reference_id), S)
      | Some r \<Rightarrow>
          if r = [] then (Inr (Redirect Verify Invalid_reference_id), S)
          else
            (case S r of
               None \<Rightarrow> (Inr (Redirect Verify Invalid_reference_id), S)
             | Some rec \<Rightarrow>
                 if now - created_at rec > real_of_int (TOKEN_TTL_SECONDS cfg)
                   then (Inr (Redirect Verify Token_expired), S)
                 else
                   (case frm ''token'' of
                      None \<Rightarrow> (Inl TypeError, S)
                    | Some t \<Rightarrow>
                        if \<not> (isascii (token rec) \<and> isascii t) then (Inl TypeError, S)
                        else if token rec = t
                          then (Inr (Redirect Index (Verified r)),
                                S(r \<mapsto> rec\<lparr>verified := True\<rparr>))
                        else (Inr (Redirect Verify Invalid_token_for_reference), S))))"
  by (simp add: verify_def split: option.splits)

lemma verify_link_store:
  "snd (verify_link cfg r t now S) = S
   \<or> (\<exists>rec. S r = Some rec \<and> snd (verify_link cfg r t now S) = S(r \<mapsto> rec\<lparr>verified := True\<rparr>))"
  by (auto simp: verify_link_def split: option.splits sum.splits bool.splits)

lemma verify_store:
  "snd (verify cfg meth frm now S) = S
   \<or> (\<exists>r rec. frm ''reference_id'' = Some r \<and> S r = Some rec
        \<and> snd (verify cfg meth frm now S) = S(r \<mapsto> rec\<lparr>verified := True\<rparr>))"
  by (auto simp: verify_def split: option.splits sum.splits bool.splits)

lemma verified_idem: "verified rec \<Longrightarrow> rec\<lparr>verified := True\<rparr> = rec"
  by (cases rec) simp

subsection \<open>What a submission stores\<close>


text \<open>A POST to \<^verbatim>\<open>/\<close> leaves the new record in the dictionary under the new reference
  id, whatever the notifier functions do, an exception included.\<close>

lemma index_post_stores:
  "snd (index cfg env tu ta POST frm r now S) (new_reference_id r)
     = Some \<lparr>name = frm ''name'', email = frm ''email'', issue = frm ''issue'',
              location = frm ''location'', token = format_06d (randbelow r), created_at = now,
              verified = False\<rparr>"
  by (simp add: index_def Let_def split: sum.splits)

lemma index_store:
  "snd (index cfg env tu ta meth frm r now S) = S
   \<or> (meth = POST
       \<and> (\<exists>rec. snd (index cfg env tu ta meth frm r now S) = S(new_reference_id r \<mapsto> rec)))"
  by (auto simp: index_def Let_def split: sum.splits)

subsection \<open>Stored keys are not empty and stored tokens are ASCII\<close>











subsection \<open>The notifier with the console backend and no SMTP configuration\<close>

lemma admin_console_unbound:
  "send_admin_notification cfg_console Map.empty tr rid rec = Inl UnboundLocalError"
  by (simp add: send_admin_notification_def cfg_console_def py_int_zero missing_smtp_def
      missing_names_def py_or_def)

lemma user_console_sent:
  "send_verification_email cfg_console Map.empty tr addr rid tok cc = Inr True"
  by (simp add: send_verification_email_def cfg_console_def py_int_zero missing_smtp_def
      missing_names_def py_or_def)

lemma user_unconfigured_not_sent:
  "send_verification_email cfg_day Map.empty tr addr rid tok cc = Inr False"
  by (simp add: send_verification_email_def cfg_day_def py_int_zero missing_smtp_def
      missing_names_def py_or_def)

lemma admin_no_addresses: "send_admin_notification cfg_day env tr rid rec = Inr False"
  by (simp add: send_admin_notification_def cfg_day_def)

text \<open>With nothing configured both notifier functions return \<^verbatim>\<open>False\<close>, and the
  submission is answered with the reference id of the stored record.\<close>

lemma index_unconfigured:
  "index cfg_day Map.empty quiet quiet POST form_asha rnd_ab12 1000 Map.empty
   = (Inr (Redirect Index (Submitted_not_sent ''REF-AB12CD34'')), store_1000)"
proof -
  have r: "randbelow rnd_ab12 = 0" by (simp add: rnd_ab12_def)
  have c: "debug cfg_day = False" by (simp add: cfg_day_def)
  show ?thesis
    by (simp add: index_def Let_def new_reference_id_ab12 format_06d_zero r form_asha_simps
        user_unconfigured_not_sent admin_no_addresses c store_1000_def rec_1000_def
        get_missing_smtp_config_def)
qed

subsection \<open>A verified record under requests that do not store under its key\<close>

lemma serve_keeps_verified:
  assumes "S k = Some rec" and "verified rec" and "created_id q \<noteq> Some k"
  shows "serve cfg S q k = Some rec"
proof (cases q)
  case (Index_request env tu ta meth frm r now)
  with assms index_store [of cfg env tu ta meth frm r now S] show ?thesis
    by (auto split: if_splits)
next
  case (Verify_request meth frm now)
  with assms verify_store [of cfg meth frm now S] show ?thesis
    by (auto simp: verified_idem)
next
  case (Verify_link_request r t now)
  with assms verify_link_store [of cfg r t now S] show ?thesis
    by (auto simp: verified_idem)
next
  case (Status_request r)
  with assms show ?thesis by simp
qed

subsection \<open>The two verification handlers on a dictionary without the empty key\<close>




section \<open>The claims\<close>

text \<open>
  Claim C1. The claim gives the outcome of every verification call by four cases, tested in
  order: no record, time to live exceeded, tokens equal, and otherwise \<open>token_mismatch\<close>.
  For a live record and a supplied token with a non-ASCII character the comparison raises
  \<^verbatim>\<open>TypeError\<close> on either path: the call has no outcome, and the dictionary is
  unchanged. (For ASCII tokens the cases are those of \<open>verify_link_cases\<close> and
  \<open>verify_post_cases\<close>, in the order of the claim.)
\<close>

theorem verify_non_ascii_token_raises:
  "verify_link cfg_day ''REF-AB12CD34'' e_acute 1060 store_1000 = (Inl TypeError, store_1000)
   \<and> verify cfg_day POST form_e_acute 1060 store_1000 = (Inl TypeError, store_1000)
   \<and> outcome_of (fst (verify_link cfg_day ''REF-AB12CD34'' e_acute 1060 store_1000)) = None
   \<and> outcome_of (fst (verify cfg_day POST form_e_acute 1060 store_1000)) = None"
  by (simp add: verify_link_cases verify_post_cases store_1000_simps rec_1000_simps
      cfg_day_def form_e_acute_def not_isascii_e_acute)



text \<open>
  Claim C3. The claim says that the verification operation never raises, also when the token
  field is absent from the form. A POST to \<^verbatim>\<open>/verify\<close> that names a live record and has no
  token field raises \<^verbatim>\<open>TypeError\<close> in the comparison.
\<close>

theorem verify_missing_token_raises:
  "verify cfg_day POST form_no_token 1060 store_1000 = (Inl TypeError, store_1000)
   \<and> fault_of (fst (verify cfg_day POST form_no_token 1060 store_1000)) = Some TypeError"
  by (simp add: verify_post_cases store_1000_simps rec_1000_simps cfg_day_def form_no_token_def
      fault_of_def)

text \<open>
  A submission that draws the reference id of a verified record overwrites it with a new,
  unverified record: \<^verbatim>\<open>index\<close> assigns to the key without looking it up.
\<close>

theorem colliding_create_resets_verified:
  "store_verified ''REF-AB12CD34'' = Some rec_verified \<and> verified rec_verified
   \<and> run cfg_day store_verified
        [Index_request Map.empty quiet quiet POST form_asha rnd_ab12 1000] ''REF-AB12CD34''
       = Some rec_1000
   \<and> \<not> verified rec_1000"
proof -
  have a: "store_verified ''REF-AB12CD34'' = Some rec_verified"
    by (simp add: store_verified_def)
  have b: "verified rec_verified"
    by (simp add: rec_verified_def)
  have r: "randbelow rnd_ab12 = 0" by (simp add: rnd_ab12_def)
  have "snd (index cfg_day Map.empty quiet quiet POST form_asha rnd_ab12 1000 store_verified)
          (new_reference_id rnd_ab12) = Some rec_1000"
    by (simp only: index_post_stores form_asha_simps r format_06d_zero rec_1000_def)
  then have c: "run cfg_day store_verified
        [Index_request Map.empty quiet quiet POST form_asha rnd_ab12 1000] ''REF-AB12CD34''
       = Some rec_1000"
    by (simp add: run_def new_reference_id_ab12)
  have d: "\<not> verified rec_1000" by (simp add: rec_1000_simps)
  from a b c d show ?thesis by (intro conjI)
qed

text \<open>
  Claim C4 (amended). A verified record stays in the dictionary, unchanged in every field
  and so verified, under every sequence of requests to \<^verbatim>\<open>/\<close>, \<^verbatim>\<open>/verify\<close>,
  \<^verbatim>\<open>/verify/<reference_id>/<token>\<close> and \<^verbatim>\<open>/status/<reference_id>\<close> in which no
  submission draws the reference id of that record.
\<close>

theorem verified_is_kept:
  assumes "S k = Some rec" and "verified rec"
    and "\<forall>q \<in> set reqs. created_id q \<noteq> Some k"
  shows "run cfg S reqs k = Some rec"
  using assms
proof (induction reqs arbitrary: S)
  case Nil
  then show ?case by (simp add: run_def)
next
  case (Cons q reqs)
  from Cons.prems have "serve cfg S q k = Some rec"
    by (simp add: serve_keeps_verified)
  with Cons.IH [of "serve cfg S q"] Cons.prems show ?case
    by (simp add: run_def)
qed

text \<open>
  The theorem above for a wrong token by link, a submission under another reference id,
  a late manual verification and a status lookup.
\<close>

theorem verified_is_kept_witness:
  "store_verified ''REF-AB12CD34'' = Some rec_verified \<and> verified rec_verified
   \<and> run cfg_day store_verified
        [Verify_link_request ''REF-AB12CD34'' ''999999'' 2000,
         Index_request Map.empty quiet quiet POST form_asha rnd_ff00 3000,
         Verify_request POST form_verify 90000,
         Status_request ''REF-AB12CD34''] ''REF-AB12CD34'' = Some rec_verified"
proof -
  have a: "store_verified ''REF-AB12CD34'' = Some rec_verified"
    by (simp add: store_verified_def)
  have b: "verified rec_verified"
    by (simp add: rec_verified_def)
  have c: "\<forall>q \<in> set [Verify_link_request ''REF-AB12CD34'' ''999999'' 2000,
         Index_request Map.empty quiet quiet POST form_asha rnd_ff00 3000,
         Verify_request POST form_verify 90000,
         Status_request ''REF-AB12CD34'']. created_id q \<noteq> Some ''REF-AB12CD34''"
    by (simp add: new_reference_id_ff00)
  have d: "run cfg_day store_verified
        [Verify_link_request ''REF-AB12CD34'' ''999999'' 2000,
         Index_request Map.empty quiet quiet POST form_asha rnd_ff00 3000,
         Verify_request POST form_verify 90000,
         Status_request ''REF-AB12CD34''] ''REF-AB12CD34'' = Some rec_verified"
    using a b c by (rule verified_is_kept)
  from a b d show ?thesis by (intro conjI)
qed

text \<open>
  Claim C5. A verification call, by form or by link, whose outcome is not \<open>verified_now\<close>
  (an exception included) returns the dictionary as it was. For a record whose age
  \<open>now - created_at\<close> is greater than the time to live the outcome is \<open>expired\<close> and the
  dictionary is unchanged, whatever the supplied token. The comparison is strict: for a record
  whose age is at most the time to live, the record's own token gives \<open>verified_now\<close> and
  sets \<open>verified\<close>. On the manual path the record is named by a non-empty form field; the
  record's token is ASCII. Both hold of every record that \<^verbatim>\<open>index\<close> stores
  (\<open>run_store_ok\<close>).
\<close>

theorem verify_atomic_strict_ttl:
  "(outcome_of (fst (verify cfg meth frm now S)) \<noteq> Some verified_now
      \<longrightarrow> snd (verify cfg meth frm now S) = S)
   \<and> (outcome_of (fst (verify_link cfg r t now S)) \<noteq> Some verified_now
      \<longrightarrow> snd (verify_link cfg r t now S) = S)
   \<and> (S r = Some rec \<and> now - created_at rec > real_of_int (TOKEN_TTL_SECONDS cfg) \<longrightarrow>
        verify_link cfg r t now S = (Inr (Redirect Index Token_expired), S)
        \<and> (r \<noteq> [] \<and> frm ''reference_id'' = Some r \<longrightarrow>
             verify cfg POST frm now S = (Inr (Redirect Verify Token_expired), S)))
   \<and> (S r = Some rec \<and> now - created_at rec \<le> real_of_int (TOKEN_TTL_SECONDS cfg)
        \<and> isascii (token rec) \<longrightarrow>
        verify_link cfg r (token rec) now S
          = (Inr (Redirect Index (Verified_via_email r)), S(r \<mapsto> rec\<lparr>verified := True\<rparr>))
        \<and> (r \<noteq> [] \<and> frm ''reference_id'' = Some r \<and> frm ''token'' = Some (token rec) \<longrightarrow>
             verify cfg POST frm now S
               = (Inr (Redirect Index (Verified r)), S(r \<mapsto> rec\<lparr>verified := True\<rparr>))))"
proof (intro conjI impI)
  assume "outcome_of (fst (verify cfg meth frm now S)) \<noteq> Some verified_now"
  then show "snd (verify cfg meth frm now S) = S"
    by (auto simp: verify_def split: option.splits sum.splits bool.splits if_splits)
next
  assume "outcome_of (fst (verify_link cfg r t now S)) \<noteq> Some verified_now"
  then show "snd (verify_link cfg r t now S) = S"
    by (auto simp: verify_link_def split: option.splits sum.splits bool.splits if_splits)
next
  assume "S r = Some rec \<and> now - created_at rec > real_of_int (TOKEN_TTL_SECONDS cfg)"
  then show "verify_link cfg r t now S = (Inr (Redirect Index Token_expired), S)"
    by (simp add: verify_link_cases)
next
  assume "S r = Some rec \<and> now - created_at rec > real_of_int (TOKEN_TTL_SECONDS cfg)"
    and "r \<noteq> [] \<and> frm ''reference_id'' = Some r"
  then show "verify cfg POST frm now S = (Inr (Redirect Verify Token_expired), S)"
    by (simp add: verify_post_cases)
next
  assume "S r = Some rec \<and> now - created_at rec \<le> real_of_int (TOKEN_TTL_SECONDS cfg)
        \<and> isascii (token rec)"
  then show "verify_link cfg r (token rec) now S
          = (Inr (Redirect Index (Verified_via_email r)), S(r \<mapsto> rec\<lparr>verified := True\<rparr>))"
    by (simp add: verify_link_cases)
next
  assume "S r = Some rec \<and> now - created_at rec \<le> real_of_int (TOKEN_TTL_SECONDS cfg)
        \<and> isascii (token rec)"
    and "r \<noteq> [] \<and> frm ''reference_id'' = Some r \<and> frm ''token'' = Some (token rec)"
  then show "verify cfg POST frm now S
               = (Inr (Redirect Index (Verified r)), S(r \<mapsto> rec\<lparr>verified := True\<rparr>))"
    by (simp add: verify_post_cases)
qed

text \<open>
  The scenario of the specification: the record is created at time 1000 with a time to live
  of 86400; at 1000 + 86401 the right token gives \<open>expired\<close>, at 1000 + 86399 and at
  1000 + 86400 it gives \<open>verified_now\<close>.
\<close>

theorem verify_atomic_strict_ttl_witness:
  "snd (index cfg_day Map.empty quiet quiet POST form_asha rnd_ab12 1000 Map.empty) = store_1000
   \<and> store_1000 ''REF-AB12CD34'' = Some rec_1000
   \<and> created_at rec_1000 = 1000 \<and> TOKEN_TTL_SECONDS cfg_day = 86400
   \<and> verify_link cfg_day ''REF-AB12CD34'' ''000000'' (1000 + 86401) store_1000
       = (Inr (Redirect Index Token_expired), store_1000)
   \<and> verify cfg_day POST form_verify (1000 + 86401) store_1000
       = (Inr (Redirect Verify Token_expired), store_1000)
   \<and> verify_link cfg_day ''REF-AB12CD34'' ''000000'' (1000 + 86399) store_1000
       = (Inr (Redirect Index (Verified_via_email ''REF-AB12CD34'')),
          store_1000(''REF-AB12CD34'' \<mapsto> rec_1000\<lparr>verified := True\<rparr>))
   \<and> verify cfg_day POST form_verify (1000 + 86400) store_1000
       = (Inr (Redirect Index (Verified ''REF-AB12CD34'')),
          store_1000(''REF-AB12CD34'' \<mapsto> rec_1000\<lparr>verified := True\<rparr>))"
proof -
  have ttl: "TOKEN_TTL_SECONDS cfg_day = 86400" by (simp add: cfg_day_def)
  have made: "snd (index cfg_day Map.empty quiet quiet POST form_asha rnd_ab12 1000 Map.empty)
      = store_1000"
    by (simp add: index_unconfigured)
  have s: "store_1000 ''REF-AB12CD34'' = Some rec_1000" by (simp add: store_1000_simps)
  have named: "''REF-AB12CD34'' \<noteq> [] \<and> form_verify ''reference_id'' = Some ''REF-AB12CD34''"
    by (simp add: form_verify_simps)
  have named_tok: "''REF-AB12CD34'' \<noteq> [] \<and> form_verify ''reference_id'' = Some ''REF-AB12CD34''
      \<and> form_verify ''token'' = Some (token rec_1000)"
    by (simp add: form_verify_simps rec_1000_simps)
  have late: "store_1000 ''REF-AB12CD34'' = Some rec_1000
      \<and> (1000 + 86401) - created_at rec_1000 > real_of_int (TOKEN_TTL_SECONDS cfg_day)"
    by (simp add: store_1000_simps rec_1000_simps ttl)
  have early: "store_1000 ''REF-AB12CD34'' = Some rec_1000
      \<and> (1000 + 86399) - created_at rec_1000 \<le> real_of_int (TOKEN_TTL_SECONDS cfg_day)
      \<and> isascii (token rec_1000)"
    by (simp add: store_1000_simps rec_1000_simps ttl isascii_zeros)
  have edge: "store_1000 ''REF-AB12CD34'' = Some rec_1000
      \<and> (1000 + 86400) - created_at rec_1000 \<le> real_of_int (TOKEN_TTL_SECONDS cfg_day)
      \<and> isascii (token rec_1000)"
    by (simp add: store_1000_simps rec_1000_simps ttl isascii_zeros)
  have l: "verify_link cfg_day ''REF-AB12CD34'' ''000000'' (1000 + 86401) store_1000
             = (Inr (Redirect Index Token_expired), store_1000)
         \<and> verify cfg_day POST form_verify (1000 + 86401) store_1000
             = (Inr (Redirect Verify Token_expired), store_1000)"
    using verify_atomic_strict_ttl [of cfg_day POST form_verify "1000 + 86401" store_1000
        "''REF-AB12CD34''" "''000000''" rec_1000] late named
    by blast
  have e: "verify_link cfg_day ''REF-AB12CD34'' (token rec_1000) (1000 + 86399) store_1000
             = (Inr (Redirect Index (Verified_via_email ''REF-AB12CD34'')),
                store_1000(''REF-AB12CD34'' \<mapsto> rec_1000\<lparr>verified := True\<rparr>))"
    using verify_atomic_strict_ttl [of cfg_day POST form_verify "1000 + 86399" store_1000
        "''REF-AB12CD34''" "''000000''" rec_1000] early
    by blast
  have g: "verify cfg_day POST form_verify (1000 + 86400) store_1000
             = (Inr (Redirect Index (Verified ''REF-AB12CD34'')),
                store_1000(''REF-AB12CD34'' \<mapsto> rec_1000\<lparr>verified := True\<rparr>))"
    using verify_atomic_strict_ttl [of cfg_day POST form_verify "1000 + 86400" store_1000
        "''REF-AB12CD34''" "''000000''" rec_1000] edge named_tok
    by blast
  from made s l e g show ?thesis
    by (simp only: rec_1000_simps ttl simp_thms)
qed

text \<open>
  Claim C7. The claim says that a failing notification never prevents the record from being
  stored nor the reference id from being returned. With the console backend, one
  administrator address and no SMTP configuration, the submission stores the record and
  then leaves \<^verbatim>\<open>index\<close> by the \<^verbatim>\<open>UnboundLocalError\<close> of the administrator
  notification: no message with the reference id is flashed. (That the record is stored for
  every input is \<open>index_post_stores\<close>.)
\<close>

theorem index_raises_after_storing:
  "index cfg_console Map.empty quiet quiet POST form_asha rnd_ab12 1000 Map.empty
   = (Inl UnboundLocalError, store_1000)"
proof -
  have r: "randbelow rnd_ab12 = 0" by (simp add: rnd_ab12_def)
  show ?thesis
    by (simp add: index_def Let_def new_reference_id_ab12 format_06d_zero r form_asha_simps
        admin_console_unbound user_console_sent store_1000_def rec_1000_def)
qed

text \<open>
  Claim C8. \<^verbatim>\<open>status\<close> returns the body "Reference not found" with code 404 when the
  dictionary has no record under the reference id, and otherwise the dictionary with exactly
  the keys \<open>reference_id\<close>, \<open>verified\<close> and \<open>created_at\<close>, whose values are the
  reference id asked for, the record's flag and the record's time of creation in ISO format.
  The token is not in it: replacing every token of the dictionary by any other leaves the
  response the same.
\<close>

theorem status_payload:
  "(S r = None \<longrightarrow> status fmt r S = Not_found ''Reference not found'' 404)
   \<and> (\<forall>rec. S r = Some rec \<longrightarrow>
         status fmt r S = Payload [(''reference_id'', JString r), (''verified'', JBool (verified rec)),
                                   (''created_at'', JString (fmt (created_at rec)))])
   \<and> status fmt r (\<lambda>k. map_option (\<lambda>rec. rec\<lparr>token := f k rec\<rparr>) (S k)) = status fmt r S"
  by (auto simp: status_def split: option.splits)

text \<open>
  The theorem above for the record \<open>REF-AB12CD34\<close>, for an unknown reference id, and for
  the dictionary with the token replaced by 999999.
\<close>

theorem status_payload_witness:
  "store_1000 ''REF-AB12CD34'' = Some rec_1000
   \<and> status fixed_isoformat ''REF-AB12CD34'' store_1000
       = Payload [(''reference_id'', JString ''REF-AB12CD34''), (''verified'', JBool False),
                  (''created_at'', JString ''1970-01-01T00:16:40'')]
   \<and> store_1000 ''REF-FFFFFFFF'' = None
   \<and> status fixed_isoformat ''REF-FFFFFFFF'' store_1000 = Not_found ''Reference not found'' 404
   \<and> status fixed_isoformat ''REF-AB12CD34''
         (\<lambda>k. map_option (\<lambda>rec. rec\<lparr>token := ''999999''\<rparr>) (store_1000 k))
       = status fixed_isoformat ''REF-AB12CD34'' store_1000"
proof -
  note p = status_payload [of store_1000 "''REF-AB12CD34''" fixed_isoformat "\<lambda>k rec. ''999999''"]
  note q = status_payload [of store_1000 "''REF-FFFFFFFF''" fixed_isoformat "\<lambda>k rec. ''999999''"]
  have a: "store_1000 ''REF-AB12CD34'' = Some rec_1000"
    and b: "store_1000 ''REF-FFFFFFFF'' = None"
    by (simp_all add: store_1000_simps)
  have c: "status fixed_isoformat ''REF-AB12CD34'' store_1000
       = Payload [(''reference_id'', JString ''REF-AB12CD34''), (''verified'', JBool (verified rec_1000)),
                  (''created_at'', JString (fixed_isoformat (created_at rec_1000)))]"
    using p a by blast
  have d: "status fixed_isoformat ''REF-FFFFFFFF'' store_1000 = Not_found ''Reference not found'' 404"
    using q b by blast
  have e: "status fixed_isoformat ''REF-AB12CD34''
         (\<lambda>k. map_option (\<lambda>rec. rec\<lparr>token := ''999999''\<rparr>) (store_1000 k))
       = status fixed_isoformat ''REF-AB12CD34'' store_1000"
    using p by blast
  from a b c d e show ?thesis
    by (simp only: rec_1000_simps fixed_isoformat_def simp_thms)
qed

text \<open>
  Claim C9. A verification call, by form or by link, leaves every entry of the dictionary
  under another key than the given reference id as it was, adds and removes no key, and
  leaves every record with the name, email, issue, location, token and time of creation it
  had: at most \<open>verified\<close> of the record named by the reference id changes.
\<close>

theorem verify_frame:
  "(\<forall>k. k \<noteq> r \<longrightarrow> snd (verify_link cfg r t now S) k = S k)
   \<and> (\<forall>k. Some k \<noteq> frm ''reference_id'' \<longrightarrow> snd (verify cfg meth frm now S) k = S k)
   \<and> (\<forall>k. S k = None \<longrightarrow>
          snd (verify_link cfg r t now S) k = None \<and> snd (verify cfg meth frm now S) k = None)
   \<and> (\<forall>k rec. S k = Some rec \<longrightarrow>
          (\<exists>rec'. snd (verify_link cfg r t now S) k = Some rec' \<and> same_but_verified rec' rec)
        \<and> (\<exists>rec'. snd (verify cfg meth frm now S) k = Some rec' \<and> same_but_verified rec' rec))"
  using verify_link_store [of cfg r t now S] verify_store [of cfg meth frm now S]
  by (auto simp: same_but_verified_def)

text \<open>
  The theorem above for the verification of \<open>REF-AB12CD34\<close> with its token, at its own
  key and at an unknown key.
\<close>

theorem verify_frame_witness:
  "store_1000 ''REF-AB12CD34'' = Some rec_1000
   \<and> (\<exists>rec'. snd (verify_link cfg_day ''REF-AB12CD34'' ''000000'' 1060 store_1000) ''REF-AB12CD34''
                = Some rec' \<and> same_but_verified rec' rec_1000)
   \<and> (\<exists>rec'. snd (verify cfg_day POST form_verify 1060 store_1000) ''REF-AB12CD34''
                = Some rec' \<and> same_but_verified rec' rec_1000)
   \<and> store_1000 ''REF-FFFFFFFF'' = None
   \<and> snd (verify_link cfg_day ''REF-AB12CD34'' ''000000'' 1060 store_1000) ''REF-FFFFFFFF'' = None
   \<and> snd (verify cfg_day POST form_verify 1060 store_1000) ''REF-FFFFFFFF'' = None"
proof -
  note f = verify_frame [of "''REF-AB12CD34''" cfg_day "''000000''" 1060 store_1000 form_verify POST]
  have a: "store_1000 ''REF-AB12CD34'' = Some rec_1000"
    and b: "store_1000 ''REF-FFFFFFFF'' = None"
    by (simp_all add: store_1000_simps)
  from f a b show ?thesis by blast
qed

text \<open>
  Claim C10. The claim says that the notifier functions report every failure as
  \<^verbatim>\<open>False\<close> and never raise. With the console backend, one administrator address and no
  SMTP configuration, \<^verbatim>\<open>send_admin_notification\<close> raises \<^verbatim>\<open>UnboundLocalError\<close>.
\<close>

theorem send_admin_notification_raises:
  "send_admin_notification cfg_console Map.empty quiet ''REF-AB12CD34'' rec_1000
   = Inl UnboundLocalError"
  by (rule admin_console_unbound)

end
